theory Spec2Isabelle
  imports Main "HOL-Library.Sublist"
begin

section \<open>The deployment script \<^verbatim>\<open>commit-changes.py\<close>\<close>

text \<open>
  The script has two functions, \<^verbatim>\<open>run_command_with_timeout\<close> (the command runner) and
  \<^verbatim>\<open>main\<close> (the deployment driver), and a \<^verbatim>\<open>__main__\<close> block that turns the driver's
  result into the exit code of the process.

  The boundary of the model is the operating system: \<^verbatim>\<open>os.chdir\<close> and
  \<^verbatim>\<open>subprocess.run\<close> are parameters, every result they can give is a value, and
  everything the script does with the outside world (a line printed, a change of directory,
  a child process started, a sleep) is an event appended, in program order, to a trace.
\<close>

subsection \<open>Data\<close>

text \<open>
  Exceptions that the two library calls raise. \<^verbatim>\<open>subprocess.TimeoutExpired\<close> is the one class
  the runner names; every other instance of \<^verbatim>\<open>Exception\<close> (\<^verbatim>\<open>OSError\<close> for a failed spawn or a
  missing directory, \<^verbatim>\<open>ValueError\<close>, a decoding error of the captured text, ...) is
  \<open>OtherException\<close> with its message. Asynchronous interruptions of the interpreter
  (\<^verbatim>\<open>KeyboardInterrupt\<close>), which are not instances of \<^verbatim>\<open>Exception\<close> and can arrive between any
  two instructions, are outside this sequential model.
\<close>

datatype exc = TimeoutExpired | OtherException string

text \<open>
  \<^verbatim>\<open>subprocess.CompletedProcess\<close> as the runner reads it: with \<^verbatim>\<open>capture_output=True\<close> and
  \<^verbatim>\<open>text=True\<close> both streams are strings; the return code is a Python integer (negative when
  the child was killed by a signal).
\<close>

record completed_process =
  stdout :: string
  stderr :: string
  returncode :: int

text \<open>
  The operating system as the script sees it. \<open>subprocess_run os cmd timeout\<close> is the
  outcome of \<^verbatim>\<open>subprocess.run(cmd, shell=True, capture_output=True, text=True, timeout=timeout)\<close>:
  the call blocks until the child has exited or the timeout has expired, and then either
  returns a completed process or raises. \<open>chdir os path\<close> is \<open>None\<close> when \<^verbatim>\<open>os.chdir(path)\<close>
  returns and the exception otherwise. The driver runs five different command lines, each at
  most once, so an outcome for each command line describes every run of the script.
\<close>

record os =
  chdir :: "string \<Rightarrow> exc option"
  subprocess_run :: "string \<Rightarrow> int \<Rightarrow> exc + completed_process"

text \<open>
  One constructor for each \<^verbatim>\<open>print\<close> of the source, with the values its f-string
  interpolates. The time stamp in front of \<open>Running\<close> and the directory name after
  \<open>Working_directory\<close> are not modelled.
\<close>

datatype message =
    Running string
  | Stdout string
  | Stderr string
  | Command_succeeded string
  | Command_failed int string
  | Command_timed_out int string
  | Command_error string
  | Uploading_changes
  | Rule
  | Working_directory
  | Step1_checking_status
  | Failed_to_check_status
  | Step2_adding_changes
  | Failed_to_add_changes
  | Step3_committing
  | Commit_may_have_failed
  | Step4_pushing
  | Failed_to_push
  | Successfully_uploaded
  | Step5_checking_actions
  | Actions_running
  | Could_not_check_actions
  | Deployment_complete
  | Changes_uploaded
  | Monitor_actions
  | Deployment_failed
  | Check_error_messages

datatype event =
    Print message
  | Chdir string
  | Run string int
  | Sleep int

text \<open>How the process ends: \<^verbatim>\<open>sys.exit(n)\<close>, or an exception that nothing caught.\<close>

datatype exit_status = Exit int | Uncaught exc

subsection \<open>The command runner\<close>

text \<open>
  \<^verbatim>\<open>run_command_with_timeout(cmd, timeout=300)\<close>. The result is what the call gives its
  caller (\<open>Inr\<close> a returned boolean, \<open>Inl\<close> an exception that leaves the function) and the
  events of the call. The \<^verbatim>\<open>try\<close> block is the \<open>Inr\<close> branch, the two \<^verbatim>\<open>except\<close> clauses are the
  two \<open>Inl\<close> branches, in the order of the source.
\<close>

definition run_command_with_timeout :: "os \<Rightarrow> string \<Rightarrow> int \<Rightarrow> (exc + bool) \<times> event list" where
  "run_command_with_timeout os cmd timeout =
     (let tr = [Print (Running cmd), Run cmd timeout] in
      case subprocess_run os cmd timeout of
        Inr result \<Rightarrow>
          (let tr1 = (if stdout result \<noteq> [] then tr @ [Print (Stdout (stdout result))] else tr);
               tr2 = (if stderr result \<noteq> [] then tr1 @ [Print (Stderr (stderr result))] else tr1)
           in if returncode result = 0
              then (Inr True, tr2 @ [Print (Command_succeeded cmd)])
              else (Inr False, tr2 @ [Print (Command_failed (returncode result) cmd)]))
      | Inl TimeoutExpired \<Rightarrow> (Inr False, tr @ [Print (Command_timed_out timeout cmd)])
      | Inl (OtherException e) \<Rightarrow> (Inr False, tr @ [Print (Command_error e)]))"

text \<open>The default of the second parameter.\<close>

definition run_command_with_default_timeout :: "os \<Rightarrow> string \<Rightarrow> (exc + bool) \<times> event list" where
  "run_command_with_default_timeout os cmd = run_command_with_timeout os cmd 300"

subsection \<open>The deployment driver\<close>

definition workdir :: string where
  "workdir = ''/Users/damondecrescenzo/dev_framework_demo''"

fun join_newline :: "string list \<Rightarrow> string" where
  "join_newline [] = []"
| "join_newline [l] = l"
| "join_newline (l # ls) = l @ CHR 0x0A # join_newline ls"

text \<open>
  The triple-quoted literal of step 3, line by line, as UTF-8 bytes (the source's \<^verbatim>\<open>\\\<close>
  is one backslash).
\<close>

definition commit_message :: string where
  "commit_message = join_newline
    [''fix: resolve GitHub Actions syntax hanging and add comprehensive deployment protection'',
     '''',
     [CHR 0xF0, CHR 0x9F, CHR 0x94, CHR 0xA7] @ '' CRITICAL FIXES APPLIED:'',
     ''- Fixed all GitHub Actions syntax escaping in install-framework-smart.sh'',
     ''- Resolved 45+ instances of unescaped ${{ }} patterns causing shell hanging'',
     ''- Added timeout protection and debug logging throughout installation script'',
     ''- Protected npm install and all long-running commands with timeouts'',
     '''',
     [CHR 0xF0, CHR 0x9F, CHR 0x9B, CHR 0xA1, CHR 0xEF, CHR 0xB8, CHR 0x8F] @ '' DEPLOYMENT PROTECTION ADDED:'',
     ''- Created deploy-with-timeout.sh with comprehensive error handling'',
     ''- Added validate-installation-syntax.sh for pre-deployment validation'',
     ''- Implemented signal handlers and automatic cleanup on interruption'',
     ''- Added timestamped debug logging with color-coded output'',
     '''',
     [CHR 0xF0, CHR 0x9F, CHR 0x9A, CHR 0x80] @ '' PRODUCTION READY FEATURES:'',
     ''- Installation script now hang-proof with 30-minute max runtime'',
     ''- GitHub Actions workflows properly configured with escaped syntax'',
     ''- Complete security automation (Dependabot, SonarCloud, Qodo) integrated'',
     ''- Comprehensive testing and validation scripts included'',
     '''',
     [CHR 0xE2, CHR 0x9C, CHR 0x85] @ '' DEPLOYMENT VERIFICATION:'',
     ''- All GitHub Actions patterns properly escaped as '' @ [CHR 0x5C] @ ''${{ }}'',
     ''- Timeout protection on all critical operations'',
     ''- Debug logging for complete visibility'',
     ''- Automatic cleanup prevents hanging processes'',
     '''',
     ''This resolves the critical deployment blocker and ensures reliable installation on new repositories.'']"

text \<open>\<^verbatim>\<open>f'git commit -m "{commit_message}"'\<close>\<close>

definition commit_cmd :: string where
  "commit_cmd = ''git commit -m '' @ [CHR 0x22] @ commit_message @ [CHR 0x22]"

text \<open>
  \<^verbatim>\<open>main()\<close>. Each \<^verbatim>\<open>return False\<close> of the source is an \<open>Inr False\<close> here; an exception of
  \<^verbatim>\<open>os.chdir\<close>, or one that a runner call would let through, leaves the driver as \<open>Inl\<close>.
\<close>

definition main :: "os \<Rightarrow> (exc + bool) \<times> event list" where
  "main os =
     (let tr0 = [Print Uploading_changes, Print Rule, Chdir workdir] in
      case chdir os workdir of
        Some e \<Rightarrow> (Inl e, tr0)
      | None \<Rightarrow>
     (let (r1, ev1) = run_command_with_timeout os ''git status --porcelain'' 30;
          tr1 = tr0 @ [Print Working_directory, Print Step1_checking_status] @ ev1 in
      case r1 of
        Inl e \<Rightarrow> (Inl e, tr1)
      | Inr False \<Rightarrow> (Inr False, tr1 @ [Print Failed_to_check_status])
      | Inr True \<Rightarrow>
     (let (r2, ev2) = run_command_with_timeout os ''git add .'' 60;
          tr2 = tr1 @ [Print Step2_adding_changes] @ ev2 in
      case r2 of
        Inl e \<Rightarrow> (Inl e, tr2)
      | Inr False \<Rightarrow> (Inr False, tr2 @ [Print Failed_to_add_changes])
      | Inr True \<Rightarrow>
     (let (r3, ev3) = run_command_with_timeout os commit_cmd 60;
          tr3 = tr2 @ [Print Step3_committing] @ ev3 in
      case r3 of
        Inl e \<Rightarrow> (Inl e, tr3)
      | Inr committed \<Rightarrow>
     (let tr3' = (if \<not> committed then tr3 @ [Print Commit_may_have_failed] else tr3);
          (r4, ev4) = run_command_with_timeout os ''git push'' 120;
          tr4 = tr3' @ [Print Step4_pushing] @ ev4 in
      case r4 of
        Inl e \<Rightarrow> (Inl e, tr4)
      | Inr False \<Rightarrow> (Inr False, tr4 @ [Print Failed_to_push])
      | Inr True \<Rightarrow>
     (let tr4' = tr4 @ [Print Successfully_uploaded, Print Step5_checking_actions, Sleep 10];
          (r5, ev5) = run_command_with_timeout os ''gh run list --limit 3'' 30;
          tr5 = tr4' @ ev5 in
      case r5 of
        Inl e \<Rightarrow> (Inl e, tr5)
      | Inr True \<Rightarrow> (Inr True, tr5 @ [Print Actions_running])
      | Inr False \<Rightarrow> (Inr True, tr5 @ [Print Could_not_check_actions])))))))"

text \<open>The \<^verbatim>\<open>__main__\<close> block: the exit status of the process and everything it did.\<close>

definition script :: "os \<Rightarrow> exit_status \<times> event list" where
  "script os =
     (case main os of
        (Inl e, tr) \<Rightarrow> (Uncaught e, tr)
      | (Inr True, tr) \<Rightarrow>
          (Exit 0, tr @ [Print Deployment_complete, Print Changes_uploaded, Print Monitor_actions])
      | (Inr False, tr) \<Rightarrow>
          (Exit 1, tr @ [Print Deployment_failed, Print Check_error_messages]))"

subsection \<open>Reading a trace\<close>

text \<open>The child processes started, with their timeouts, in order.\<close>

fun invocations :: "event list \<Rightarrow> (string \<times> int) list" where
  "invocations [] = []"
| "invocations (Run cmd t # es) = (cmd, t) # invocations es"
| "invocations (_ # es) = invocations es"

text \<open>The steps that take time (child processes and sleeps), in order.\<close>

fun steps :: "event list \<Rightarrow> event list" where
  "steps [] = []"
| "steps (Print _ # es) = steps es"
| "steps (Chdir _ # es) = steps es"
| "steps (e # es) = e # steps es"

subsection \<open>Outcomes by kind\<close>

text \<open>
  What an outcome of \<^verbatim>\<open>subprocess.run\<close> is once the captured text and the message of the
  exception are forgotten: the exit status of a child that completed, a timeout, or a fault.
\<close>

datatype outcome_kind = Exited int | Timed_out | Faulted

fun kind_of :: "exc + completed_process \<Rightarrow> outcome_kind" where
  "kind_of (Inr r) = Exited (returncode r)"
| "kind_of (Inl TimeoutExpired) = Timed_out"
| "kind_of (Inl (OtherException _)) = Faulted"

subsection \<open>Example environments\<close>

text \<open>
  A child that exits with status 0 and prints nothing, one that exits with a given status
  and a line on its standard error, and the environment in which the working directory
  exists, the listed command lines have the listed outcomes and every other command succeeds
  quietly.
\<close>

definition succeeded :: completed_process where
  "succeeded = \<lparr>stdout = [], stderr = [], returncode = 0\<rparr>"

definition failed :: "int \<Rightarrow> string \<Rightarrow> completed_process" where
  "failed rc err = \<lparr>stdout = [], stderr = err, returncode = rc\<rparr>"

definition scenario :: "(string \<times> (exc + completed_process)) list \<Rightarrow> os" where
  "scenario xs =
     \<lparr>chdir = (\<lambda>_. None),
      subprocess_run = (\<lambda>cmd t. case map_of xs cmd of Some r \<Rightarrow> r | None \<Rightarrow> Inr succeeded)\<rparr>"

text \<open>An environment with the outcome of one command line replaced.\<close>

definition with_outcome :: "os \<Rightarrow> string \<Rightarrow> exc + completed_process \<Rightarrow> os" where
  "with_outcome os cmd r = os\<lparr>subprocess_run := (subprocess_run os)(cmd := (\<lambda>_. r))\<rparr>"

section \<open>Properties\<close>

subsection \<open>The runner, one call\<close>

lemma runner_result:
  "fst (run_command_with_timeout os cmd t) =
     Inr (case subprocess_run os cmd t of Inr r \<Rightarrow> returncode r = 0 | Inl e \<Rightarrow> False)"
  by (simp add: run_command_with_timeout_def Let_def split: sum.split exc.split)

lemma invocations_append: "invocations (xs @ ys) = invocations xs @ invocations ys"
  by (induction xs rule: invocations.induct) simp_all

lemma steps_append: "steps (xs @ ys) = steps xs @ steps ys"
  by (induction xs rule: steps.induct) simp_all

lemma runner_invocations:
  "invocations (snd (run_command_with_timeout os cmd t)) = [(cmd, t)]"
  by (simp add: run_command_with_timeout_def Let_def invocations_append split: sum.split exc.split)

lemma runner_steps:
  "steps (snd (run_command_with_timeout os cmd t)) = [Run cmd t]"
  by (simp add: run_command_with_timeout_def Let_def steps_append split: sum.split exc.split)

lemma runner_shape:
  obtains b ev where "run_command_with_timeout os cmd t = (Inr b, ev)"
    and "invocations ev = [(cmd, t)]" and "steps ev = [Run cmd t]"
proof -
  obtain r ev where p: "run_command_with_timeout os cmd t = (r, ev)"
    by (cases "run_command_with_timeout os cmd t")
  from runner_result [of os cmd t] p obtain b where "r = Inr b" by simp
  moreover from runner_invocations [of os cmd t] p have "invocations ev = [(cmd, t)]" by simp
  moreover from runner_steps [of os cmd t] p have "steps ev = [Run cmd t]" by simp
  ultimately show thesis using p that by blast
qed

subsection \<open>The driver, path by path\<close>

lemma commit_cmd_distinct [simp]:
  "commit_cmd \<noteq> ''git status --porcelain''" "commit_cmd \<noteq> ''git add .''"
  "commit_cmd \<noteq> ''git push''" "commit_cmd \<noteq> ''gh run list --limit 3''"
  "''git status --porcelain'' \<noteq> commit_cmd" "''git add .'' \<noteq> commit_cmd"
  "''git push'' \<noteq> commit_cmd" "''gh run list --limit 3'' \<noteq> commit_cmd"
  by (simp_all add: commit_cmd_def)

lemma main_no_directory:
  "chdir os workdir = Some e \<Longrightarrow>
     main os = (Inl e, [Print Uploading_changes, Print Rule, Chdir workdir])"
  by (simp add: main_def)

lemma main_outline:
  assumes "chdir os workdir = None"
    and "fst (run_command_with_timeout os ''git status --porcelain'' 30) = Inr b1"
    and "fst (run_command_with_timeout os ''git add .'' 60) = Inr b2"
    and "fst (run_command_with_timeout os ''git push'' 120) = Inr b4"
  shows "fst (main os) = Inr (b1 \<and> b2 \<and> b4)"
    and "invocations (snd (main os)) =
           (''git status --porcelain'', 30) #
           (if b1 then (''git add .'', 60) #
              (if b2 then (commit_cmd, 60) # (''git push'', 120) #
                 (if b4 then [(''gh run list --limit 3'', 30)] else [])
               else [])
            else [])"
    and "steps (snd (main os)) =
           Run ''git status --porcelain'' 30 #
           (if b1 then Run ''git add .'' 60 #
              (if b2 then Run commit_cmd 60 # Run ''git push'' 120 #
                 (if b4 then [Sleep 10, Run ''gh run list --limit 3'' 30] else [])
               else [])
            else [])"
proof -
  obtain c1 ev1 where s1: "run_command_with_timeout os ''git status --porcelain'' 30 = (Inr c1, ev1)"
    "invocations ev1 = [(''git status --porcelain'', 30)]"
    "steps ev1 = [Run ''git status --porcelain'' 30]" by (rule runner_shape)
  obtain c2 ev2 where s2: "run_command_with_timeout os ''git add .'' 60 = (Inr c2, ev2)"
    "invocations ev2 = [(''git add .'', 60)]"
    "steps ev2 = [Run ''git add .'' 60]" by (rule runner_shape)
  obtain c3 ev3 where s3: "run_command_with_timeout os commit_cmd 60 = (Inr c3, ev3)"
    "invocations ev3 = [(commit_cmd, 60)]"
    "steps ev3 = [Run commit_cmd 60]" by (rule runner_shape)
  obtain c4 ev4 where s4: "run_command_with_timeout os ''git push'' 120 = (Inr c4, ev4)"
    "invocations ev4 = [(''git push'', 120)]"
    "steps ev4 = [Run ''git push'' 120]" by (rule runner_shape)
  obtain c5 ev5 where s5: "run_command_with_timeout os ''gh run list --limit 3'' 30 = (Inr c5, ev5)"
    "invocations ev5 = [(''gh run list --limit 3'', 30)]"
    "steps ev5 = [Run ''gh run list --limit 3'' 30]" by (rule runner_shape)
  from assms s1(1) s2(1) s4(1) have eq: "c1 = b1" "c2 = b2" "c4 = b4" by simp_all
  note unfold = main_def Let_def assms(1) s1 s2 s3 s4 s5 eq
  show "fst (main os) = Inr (b1 \<and> b2 \<and> b4)"
    by (cases b1; cases b2; cases c3; cases b4; cases c5) (simp_all add: unfold)
  show "invocations (snd (main os)) =
           (''git status --porcelain'', 30) #
           (if b1 then (''git add .'', 60) #
              (if b2 then (commit_cmd, 60) # (''git push'', 120) #
                 (if b4 then [(''gh run list --limit 3'', 30)] else [])
               else [])
            else [])"
    by (cases b1; cases b2; cases c3; cases b4; cases c5)
       (simp_all add: unfold invocations_append)
  show "steps (snd (main os)) =
           Run ''git status --porcelain'' 30 #
           (if b1 then Run ''git add .'' 60 #
              (if b2 then Run commit_cmd 60 # Run ''git push'' 120 #
                 (if b4 then [Sleep 10, Run ''gh run list --limit 3'' 30] else [])
               else [])
            else [])"
    by (cases b1; cases b2; cases c3; cases b4; cases c5)
       (simp_all add: unfold steps_append)
qed

lemma script_exit:
  "fst (script os) =
     (case fst (main os) of Inl e \<Rightarrow> Uncaught e | Inr True \<Rightarrow> Exit 0 | Inr False \<Rightarrow> Exit 1)"
  by (simp add: script_def split: prod.split sum.split bool.split)

lemma script_invocations: "invocations (snd (script os)) = invocations (snd (main os))"
  by (simp add: script_def invocations_append split: prod.split sum.split bool.split)

subsection \<open>The example environments, evaluated\<close>

lemma scenario_chdir [simp]: "chdir (scenario xs) p = None"
  by (simp add: scenario_def)

lemma scenario_run [simp]:
  "subprocess_run (scenario xs) cmd t = (case map_of xs cmd of Some r \<Rightarrow> r | None \<Rightarrow> Inr succeeded)"
  by (simp add: scenario_def)

lemma returncode_succeeded [simp]: "returncode succeeded = 0"
  by (simp add: succeeded_def)

lemma returncode_failed [simp]: "returncode (failed rc err) = rc"
  by (simp add: failed_def)

lemma with_outcome_chdir [simp]: "chdir (with_outcome os cmd r) = chdir os"
  by (simp add: with_outcome_def)

lemma with_outcome_elsewhere:
  "cmd' \<noteq> cmd \<Longrightarrow>
     run_command_with_timeout (with_outcome os cmd r) cmd' t = run_command_with_timeout os cmd' t"
  by (simp add: with_outcome_def run_command_with_timeout_def)

lemma scenario_runner:
  "fst (run_command_with_timeout (scenario xs) cmd t) =
     Inr (case map_of xs cmd of None \<Rightarrow> True | Some (Inl e) \<Rightarrow> False
          | Some (Inr r) \<Rightarrow> returncode r = 0)"
  by (simp add: runner_result split: option.split sum.split)

lemma main_no_directory_parts:
  assumes "chdir os workdir = Some e"
  shows "fst (main os) = Inl e" and "invocations (snd (main os)) = []"
    and "steps (snd (main os)) = []"
  using main_no_directory [OF assms] by simp_all

section \<open>The claims\<close>

subsection \<open>Claims about the command runner\<close>

text \<open>
  Claim C2. For every command line and timeout, the runner returns \<open>True\<close> exactly when
  \<^verbatim>\<open>subprocess.run\<close> returns a completed process whose return code is 0. A completed process
  with another return code, a timeout and every other exception of the call all make it
  return \<open>False\<close>: the runner does not tell them apart.
\<close>

theorem runner_true_iff_exit_zero:
  "(fst (run_command_with_timeout os cmd t) = Inr True \<longleftrightarrow>
      (\<exists>r. subprocess_run os cmd t = Inr r \<and> returncode r = 0)) \<and>
   ((\<exists>r. subprocess_run os cmd t = Inr r \<and> returncode r \<noteq> 0) \<longrightarrow>
      fst (run_command_with_timeout os cmd t) = Inr False) \<and>
   (subprocess_run os cmd t = Inl TimeoutExpired \<longrightarrow>
      fst (run_command_with_timeout os cmd t) = Inr False) \<and>
   ((\<exists>m. subprocess_run os cmd t = Inl (OtherException m)) \<longrightarrow>
      fst (run_command_with_timeout os cmd t) = Inr False)"
  by (cases "subprocess_run os cmd t") (auto simp add: runner_result split: exc.split)

theorem runner_true_iff_exit_zero_witness:
  "fst (run_command_with_timeout (scenario []) ''git push'' 120) = Inr True \<and>
   fst (run_command_with_timeout
          (scenario [(''git push'', Inr (failed 1 ''rejected''))]) ''git push'' 120) = Inr False \<and>
   fst (run_command_with_timeout
          (scenario [(''git push'', Inl TimeoutExpired)]) ''git push'' 120) = Inr False \<and>
   fst (run_command_with_timeout
          (scenario [(''git push'', Inl (OtherException ''No such file or directory''))])
          ''git push'' 120) = Inr False"
  using runner_true_iff_exit_zero [of "scenario []" "''git push''" 120]
    runner_true_iff_exit_zero
      [of "scenario [(''git push'', Inr (failed 1 ''rejected''))]" "''git push''" 120]
    runner_true_iff_exit_zero [of "scenario [(''git push'', Inl TimeoutExpired)]" "''git push''" 120]
    runner_true_iff_exit_zero
      [of "scenario [(''git push'', Inl (OtherException ''No such file or directory''))]"
          "''git push''" 120]
  by simp

text \<open>
  Claim C9. The runner always returns a boolean to its caller: whatever
  \<^verbatim>\<open>subprocess.run\<close> does (return, time out, raise another exception), no exception leaves
  \<^verbatim>\<open>run_command_with_timeout\<close>.
\<close>

theorem runner_always_returns:
  "\<exists>b. fst (run_command_with_timeout os cmd t) = Inr b"
  by (simp add: runner_result)

text \<open>
  Claim C10. The boolean the runner returns depends only on the kind of the outcome (the
  exit status, a timeout, a fault): two calls whose outcomes have the same kind return the
  same boolean, whatever text was captured from the child. The witness has two calls with
  the same exit status and different captured output: the same boolean, different traces.
\<close>

theorem runner_result_ignores_output:
  "kind_of (subprocess_run os cmd t) = kind_of (subprocess_run os' cmd' t') \<Longrightarrow>
     fst (run_command_with_timeout os cmd t) = fst (run_command_with_timeout os' cmd' t')"
  by (cases "subprocess_run os cmd t" rule: kind_of.cases;
      cases "subprocess_run os' cmd' t'" rule: kind_of.cases)
     (simp_all add: runner_result)

theorem runner_result_ignores_output_witness:
  "kind_of (subprocess_run
      (scenario [(''git status --porcelain'',
                  Inr \<lparr>stdout = '' M README.md'', stderr = [], returncode = 0\<rparr>)])
      ''git status --porcelain'' 30) =
   kind_of (subprocess_run (scenario []) ''git status --porcelain'' 30) \<and>
   fst (run_command_with_timeout
      (scenario [(''git status --porcelain'',
                  Inr \<lparr>stdout = '' M README.md'', stderr = [], returncode = 0\<rparr>)])
      ''git status --porcelain'' 30) =
   fst (run_command_with_timeout (scenario []) ''git status --porcelain'' 30) \<and>
   snd (run_command_with_timeout
      (scenario [(''git status --porcelain'',
                  Inr \<lparr>stdout = '' M README.md'', stderr = [], returncode = 0\<rparr>)])
      ''git status --porcelain'' 30) \<noteq>
   snd (run_command_with_timeout (scenario []) ''git status --porcelain'' 30)"
proof -
  let ?os = "scenario [(''git status --porcelain'',
                  Inr \<lparr>stdout = '' M README.md'', stderr = [], returncode = 0\<rparr>)]"
  have k: "kind_of (subprocess_run ?os ''git status --porcelain'' 30) =
           kind_of (subprocess_run (scenario []) ''git status --porcelain'' 30)"
    by simp
  have d: "snd (run_command_with_timeout ?os ''git status --porcelain'' 30) \<noteq>
           snd (run_command_with_timeout (scenario []) ''git status --porcelain'' 30)"
    by (simp add: run_command_with_timeout_def succeeded_def)
  from k runner_result_ignores_output [OF k] d show ?thesis by simp
qed

subsection \<open>Claims about the deployment driver\<close>

text \<open>
  Claim C1. The process exits with code 0 exactly when the driver returns \<open>True\<close>, and the
  driver returns \<open>True\<close> exactly when the push step was run and its runner call returned
  \<open>True\<close>. When the working directory was entered and the status check, the staging or the
  push is a failing step, the process exits with code 1.
\<close>

theorem exit_code_reflects_push:
  "(fst (script os) = Exit 0 \<longleftrightarrow> fst (main os) = Inr True) \<and>
   (fst (main os) = Inr True \<longleftrightarrow>
      (''git push'', 120) \<in> set (invocations (snd (main os))) \<and>
      fst (run_command_with_timeout os ''git push'' 120) = Inr True) \<and>
   (chdir os workdir = None \<and>
      (fst (run_command_with_timeout os ''git status --porcelain'' 30) = Inr False \<or>
       fst (run_command_with_timeout os ''git add .'' 60) = Inr False \<or>
       fst (run_command_with_timeout os ''git push'' 120) = Inr False)
    \<longrightarrow> fst (script os) = Exit 1)"
proof (cases "chdir os workdir")
  case (Some e)
  from main_no_directory_parts [OF Some] show ?thesis
    by (simp add: script_exit Some)
next
  case None
  obtain b1 where b1: "fst (run_command_with_timeout os ''git status --porcelain'' 30) = Inr b1"
    using runner_result by blast
  obtain b2 where b2: "fst (run_command_with_timeout os ''git add .'' 60) = Inr b2"
    using runner_result by blast
  obtain b4 where b4: "fst (run_command_with_timeout os ''git push'' 120) = Inr b4"
    using runner_result by blast
  note o = main_outline [OF None b1 b2 b4]
  show ?thesis
    by (cases b1; cases b2; cases b4) (simp_all add: script_exit o None b1 b2 b4)
qed

theorem exit_code_reflects_push_witness:
  "fst (script (scenario [])) = Exit 0 \<and>
   chdir (scenario [(''git push'', Inl TimeoutExpired)]) workdir = None \<and>
   fst (run_command_with_timeout (scenario [(''git push'', Inl TimeoutExpired)]) ''git push'' 120)
     = Inr False \<and>
   fst (script (scenario [(''git push'', Inl TimeoutExpired)])) = Exit 1"
proof -
  let ?good = "scenario []"
  let ?bad = "scenario [(''git push'', Inl TimeoutExpired)]"
  have g: "chdir ?good workdir = None"
    "fst (run_command_with_timeout ?good ''git status --porcelain'' 30) = Inr True"
    "fst (run_command_with_timeout ?good ''git add .'' 60) = Inr True"
    "fst (run_command_with_timeout ?good ''git push'' 120) = Inr True"
    by (simp_all add: scenario_runner)
  from main_outline(2) [OF g]
  have reached: "(''git push'', 120) \<in> set (invocations (snd (main ?good)))" by simp
  have b: "chdir ?bad workdir = None"
    "fst (run_command_with_timeout ?bad ''git push'' 120) = Inr False"
    by (simp_all add: scenario_runner)
  from exit_code_reflects_push [of ?good] reached g(4) exit_code_reflects_push [of ?bad] b
  show ?thesis by simp
qed

text \<open>
  Claim C3. When the status check (step 1) fails, the driver returns \<open>False\<close> and the status
  command is the only child process it starts: nothing is staged, committed, pushed or
  listed, and there is no sleep.
\<close>

theorem status_failure_aborts:
  assumes "chdir os workdir = None"
    and "fst (run_command_with_timeout os ''git status --porcelain'' 30) = Inr False"
  shows "fst (main os) = Inr False \<and>
         invocations (snd (main os)) = [(''git status --porcelain'', 30)] \<and>
         steps (snd (main os)) = [Run ''git status --porcelain'' 30]"
proof -
  obtain b2 where b2: "fst (run_command_with_timeout os ''git add .'' 60) = Inr b2"
    using runner_result by blast
  obtain b4 where b4: "fst (run_command_with_timeout os ''git push'' 120) = Inr b4"
    using runner_result by blast
  from main_outline [OF assms b2 b4] show ?thesis by simp
qed

theorem status_failure_aborts_witness:
  "chdir (scenario [(''git status --porcelain'',
                     Inr (failed 128 ''fatal: not a git repository''))]) workdir = None \<and>
   fst (run_command_with_timeout
          (scenario [(''git status --porcelain'',
                      Inr (failed 128 ''fatal: not a git repository''))])
          ''git status --porcelain'' 30) = Inr False \<and>
   fst (main (scenario [(''git status --porcelain'',
                         Inr (failed 128 ''fatal: not a git repository''))])) = Inr False \<and>
   invocations (snd (main (scenario [(''git status --porcelain'',
                         Inr (failed 128 ''fatal: not a git repository''))])))
     = [(''git status --porcelain'', 30)]"
proof -
  let ?os = "scenario [(''git status --porcelain'',
                        Inr (failed 128 ''fatal: not a git repository''))]"
  have c: "chdir ?os workdir = None" by simp
  have f: "fst (run_command_with_timeout ?os ''git status --porcelain'' 30) = Inr False"
    by (simp add: scenario_runner)
  from status_failure_aborts [OF c f] c f show ?thesis by simp
qed

text \<open>
  Claim C4. When the commit command exits with a non-zero status (after a successful status
  check and staging), the commit step fails, the sequence goes on to the push and, the push
  succeeding, the driver returns \<open>True\<close> and the process exits with code 0.
\<close>

theorem commit_failure_not_fatal:
  assumes "chdir os workdir = None"
    and "fst (run_command_with_timeout os ''git status --porcelain'' 30) = Inr True"
    and "fst (run_command_with_timeout os ''git add .'' 60) = Inr True"
    and "subprocess_run os commit_cmd 60 = Inr r" and "returncode r \<noteq> 0"
    and "fst (run_command_with_timeout os ''git push'' 120) = Inr True"
  shows "fst (run_command_with_timeout os commit_cmd 60) = Inr False \<and>
         fst (main os) = Inr True \<and>
         fst (script os) = Exit 0 \<and>
         invocations (snd (main os)) =
           [(''git status --porcelain'', 30), (''git add .'', 60), (commit_cmd, 60),
            (''git push'', 120), (''gh run list --limit 3'', 30)]"
proof -
  from assms(4,5) have "fst (run_command_with_timeout os commit_cmd 60) = Inr False"
    by (simp add: runner_result)
  moreover from main_outline [OF assms(1,2,3,6)]
  have "fst (main os) = Inr True"
    and "invocations (snd (main os)) =
           [(''git status --porcelain'', 30), (''git add .'', 60), (commit_cmd, 60),
            (''git push'', 120), (''gh run list --limit 3'', 30)]"
    by simp_all
  ultimately show ?thesis by (simp add: script_exit)
qed

theorem commit_failure_not_fatal_witness:
  "chdir (scenario [(commit_cmd, Inr (failed 1 ''nothing to commit''))]) workdir = None \<and>
   subprocess_run (scenario [(commit_cmd, Inr (failed 1 ''nothing to commit''))]) commit_cmd 60
     = Inr (failed 1 ''nothing to commit'') \<and>
   returncode (failed 1 ''nothing to commit'') \<noteq> 0 \<and>
   fst (run_command_with_timeout
          (scenario [(commit_cmd, Inr (failed 1 ''nothing to commit''))]) ''git push'' 120)
     = Inr True \<and>
   fst (main (scenario [(commit_cmd, Inr (failed 1 ''nothing to commit''))])) = Inr True \<and>
   fst (script (scenario [(commit_cmd, Inr (failed 1 ''nothing to commit''))])) = Exit 0"
proof -
  let ?os = "scenario [(commit_cmd, Inr (failed 1 ''nothing to commit''))]"
  have c: "chdir ?os workdir = None" by simp
  have r1: "fst (run_command_with_timeout ?os ''git status --porcelain'' 30) = Inr True"
    by (simp add: scenario_runner)
  have r2: "fst (run_command_with_timeout ?os ''git add .'' 60) = Inr True"
    by (simp add: scenario_runner)
  have r3: "subprocess_run ?os commit_cmd 60 = Inr (failed 1 ''nothing to commit'')" by simp
  have nz: "returncode (failed 1 ''nothing to commit'') \<noteq> 0" by simp
  have r4: "fst (run_command_with_timeout ?os ''git push'' 120) = Inr True"
    by (simp add: scenario_runner)
  from commit_failure_not_fatal [OF c r1 r2 r3 nz r4] c r3 nz r4 show ?thesis by simp
qed

text \<open>
  Claim C5. Status check, staging and commit succeed and the push fails: the driver returns
  \<open>False\<close>, the process exits with code 1, and the whole run starts exactly the four git
  commands; the pipeline listing is never started.
\<close>

theorem push_failure_scenario:
  assumes "chdir os workdir = None"
    and "fst (run_command_with_timeout os ''git status --porcelain'' 30) = Inr True"
    and "fst (run_command_with_timeout os ''git add .'' 60) = Inr True"
    and "fst (run_command_with_timeout os commit_cmd 60) = Inr True"
    and "fst (run_command_with_timeout os ''git push'' 120) = Inr False"
  shows "fst (main os) = Inr False \<and>
         fst (script os) = Exit 1 \<and>
         invocations (snd (script os)) =
           [(''git status --porcelain'', 30), (''git add .'', 60), (commit_cmd, 60),
            (''git push'', 120)] \<and>
         ''gh run list --limit 3'' \<notin> fst ` set (invocations (snd (script os)))"
proof -
  from main_outline [OF assms(1,2,3,5)]
  have "fst (main os) = Inr False"
    and "invocations (snd (main os)) =
           [(''git status --porcelain'', 30), (''git add .'', 60), (commit_cmd, 60),
            (''git push'', 120)]"
    by simp_all
  then show ?thesis by (simp add: script_exit script_invocations)
qed

theorem push_failure_scenario_witness:
  "chdir (scenario [(''git push'', Inr (failed 1 ''rejected''))]) workdir = None \<and>
   fst (run_command_with_timeout (scenario [(''git push'', Inr (failed 1 ''rejected''))])
          commit_cmd 60) = Inr True \<and>
   fst (run_command_with_timeout (scenario [(''git push'', Inr (failed 1 ''rejected''))])
          ''git push'' 120) = Inr False \<and>
   fst (script (scenario [(''git push'', Inr (failed 1 ''rejected''))])) = Exit 1 \<and>
   invocations (snd (script (scenario [(''git push'', Inr (failed 1 ''rejected''))]))) =
     [(''git status --porcelain'', 30), (''git add .'', 60), (commit_cmd, 60), (''git push'', 120)]"
proof -
  let ?os = "scenario [(''git push'', Inr (failed 1 ''rejected''))]"
  have c: "chdir ?os workdir = None" by simp
  have r1: "fst (run_command_with_timeout ?os ''git status --porcelain'' 30) = Inr True"
    by (simp add: scenario_runner)
  have r2: "fst (run_command_with_timeout ?os ''git add .'' 60) = Inr True"
    by (simp add: scenario_runner)
  have r3: "fst (run_command_with_timeout ?os commit_cmd 60) = Inr True"
    by (simp add: scenario_runner)
  have r4: "fst (run_command_with_timeout ?os ''git push'' 120) = Inr False"
    by (simp add: scenario_runner)
  from push_failure_scenario [OF c r1 r2 r3 r4] c r3 r4 show ?thesis by simp
qed

text \<open>
  Claim C6. When the push step was run and succeeded, the driver returns \<open>True\<close> and the
  process exits with code 0, and this stays so when the outcome of the pipeline listing
  (step 5) is replaced by any other outcome.
\<close>

theorem push_success_is_final:
  assumes "(''git push'', 120) \<in> set (invocations (snd (main os)))"
    and "fst (run_command_with_timeout os ''git push'' 120) = Inr True"
  shows "fst (main os) = Inr True \<and> fst (script os) = Exit 0 \<and>
         (\<forall>listing. fst (main (with_outcome os ''gh run list --limit 3'' listing)) = Inr True \<and>
                    fst (script (with_outcome os ''gh run list --limit 3'' listing)) = Exit 0)"
proof (cases "chdir os workdir")
  case (Some e)
  from main_no_directory_parts [OF Some] assms(1) show ?thesis by simp
next
  case None
  obtain b1 where b1: "fst (run_command_with_timeout os ''git status --porcelain'' 30) = Inr b1"
    using runner_result by blast
  obtain b2 where b2: "fst (run_command_with_timeout os ''git add .'' 60) = Inr b2"
    using runner_result by blast
  note o = main_outline [OF None b1 b2 assms(2)]
  from assms(1) o(2) have t: "b1 \<and> b2" by (cases b1; cases b2) simp_all
  have "fst (main (with_outcome os ''gh run list --limit 3'' listing)) = Inr True" for listing
  proof -
    let ?os = "with_outcome os ''gh run list --limit 3'' listing"
    have "chdir ?os workdir = None" using None by simp
    moreover have "fst (run_command_with_timeout ?os ''git status --porcelain'' 30) = Inr True"
      using b1 t by (simp add: with_outcome_elsewhere)
    moreover have "fst (run_command_with_timeout ?os ''git add .'' 60) = Inr True"
      using b2 t by (simp add: with_outcome_elsewhere)
    moreover have "fst (run_command_with_timeout ?os ''git push'' 120) = Inr True"
      using assms(2) by (simp add: with_outcome_elsewhere)
    ultimately show ?thesis by (simp add: main_outline(1))
  qed
  with o(1) t show ?thesis by (simp add: script_exit)
qed

theorem push_success_is_final_witness:
  "(''git push'', 120) \<in> set (invocations (snd (main
      (scenario [(''gh run list --limit 3'', Inr (failed 127 ''gh: command not found''))])))) \<and>
   fst (run_command_with_timeout
      (scenario [(''gh run list --limit 3'', Inr (failed 127 ''gh: command not found''))])
      ''git push'' 120) = Inr True \<and>
   fst (run_command_with_timeout
      (scenario [(''gh run list --limit 3'', Inr (failed 127 ''gh: command not found''))])
      ''gh run list --limit 3'' 30) = Inr False \<and>
   fst (main
      (scenario [(''gh run list --limit 3'', Inr (failed 127 ''gh: command not found''))]))
     = Inr True \<and>
   fst (script
      (scenario [(''gh run list --limit 3'', Inr (failed 127 ''gh: command not found''))]))
     = Exit 0"
proof -
  let ?os = "scenario [(''gh run list --limit 3'', Inr (failed 127 ''gh: command not found''))]"
  have c: "chdir ?os workdir = None" by simp
  have r1: "fst (run_command_with_timeout ?os ''git status --porcelain'' 30) = Inr True"
    by (simp add: scenario_runner)
  have r2: "fst (run_command_with_timeout ?os ''git add .'' 60) = Inr True"
    by (simp add: scenario_runner)
  have r4: "fst (run_command_with_timeout ?os ''git push'' 120) = Inr True"
    by (simp add: scenario_runner)
  have r5: "fst (run_command_with_timeout ?os ''gh run list --limit 3'' 30) = Inr False"
    by (simp add: scenario_runner)
  from main_outline(2) [OF c r1 r2 r4]
  have reached: "(''git push'', 120) \<in> set (invocations (snd (main ?os)))" by simp
  from push_success_is_final [OF reached r4] reached r4 r5 show ?thesis by simp
qed

text \<open>
  Claim C7. In every run the steps that the driver takes, in the order it takes them, are an
  initial part of the fixed sequence: status check, staging, commit, push, a sleep of 10
  seconds, pipeline listing. Each \<open>Run\<close> is one blocking call of \<^verbatim>\<open>subprocess.run\<close>, which
  has returned or timed out before the next event of the trace. The witness is the run in
  which every command succeeds: it takes the whole sequence.
\<close>

theorem steps_in_fixed_order:
  "prefix (steps (snd (main os)))
     [Run ''git status --porcelain'' 30, Run ''git add .'' 60, Run commit_cmd 60,
      Run ''git push'' 120, Sleep 10, Run ''gh run list --limit 3'' 30]"
proof (cases "chdir os workdir")
  case (Some e)
  from main_no_directory_parts [OF Some] show ?thesis by simp
next
  case None
  obtain b1 where b1: "fst (run_command_with_timeout os ''git status --porcelain'' 30) = Inr b1"
    using runner_result by blast
  obtain b2 where b2: "fst (run_command_with_timeout os ''git add .'' 60) = Inr b2"
    using runner_result by blast
  obtain b4 where b4: "fst (run_command_with_timeout os ''git push'' 120) = Inr b4"
    using runner_result by blast
  note o = main_outline [OF None b1 b2 b4]
  show ?thesis by (cases b1; cases b2; cases b4) (simp_all add: o)
qed

theorem steps_in_fixed_order_witness:
  "steps (snd (main (scenario []))) =
     [Run ''git status --porcelain'' 30, Run ''git add .'' 60, Run commit_cmd 60,
      Run ''git push'' 120, Sleep 10, Run ''gh run list --limit 3'' 30]"
proof -
  let ?os = "scenario []"
  have g: "chdir ?os workdir = None"
    "fst (run_command_with_timeout ?os ''git status --porcelain'' 30) = Inr True"
    "fst (run_command_with_timeout ?os ''git add .'' 60) = Inr True"
    "fst (run_command_with_timeout ?os ''git push'' 120) = Inr True"
    by (simp_all add: scenario_runner)
  from main_outline(3) [OF g] have len: "length (steps (snd (main ?os))) = 6" by simp
  from steps_in_fixed_order [of ?os] obtain zs where
    e: "[Run ''git status --porcelain'' 30, Run ''git add .'' 60, Run commit_cmd 60,
         Run ''git push'' 120, Sleep 10, Run ''gh run list --limit 3'' 30] =
        steps (snd (main ?os)) @ zs"
    unfolding prefix_def by blast
  from arg_cong [OF e, of length] len have "zs = []" by simp
  with e show ?thesis by simp
qed

text \<open>
  Claim C8. The child processes of a run, with their timeouts, are an initial part of: status
  check 30 s, staging 60 s, commit 60 s, push 120 s, pipeline listing 30 s; so every timeout
  that the driver passes lies between 30 and 300 seconds.
\<close>

theorem step_timeouts:
  "prefix (invocations (snd (main os)))
     [(''git status --porcelain'', 30), (''git add .'', 60), (commit_cmd, 60),
      (''git push'', 120), (''gh run list --limit 3'', 30)] \<and>
   (\<forall>(cmd, t) \<in> set (invocations (snd (main os))). 30 \<le> t \<and> t \<le> 300)"
proof (cases "chdir os workdir")
  case (Some e)
  from main_no_directory_parts [OF Some] show ?thesis by simp
next
  case None
  obtain b1 where b1: "fst (run_command_with_timeout os ''git status --porcelain'' 30) = Inr b1"
    using runner_result by blast
  obtain b2 where b2: "fst (run_command_with_timeout os ''git add .'' 60) = Inr b2"
    using runner_result by blast
  obtain b4 where b4: "fst (run_command_with_timeout os ''git push'' 120) = Inr b4"
    using runner_result by blast
  note o = main_outline [OF None b1 b2 b4]
  show ?thesis by (cases b1; cases b2; cases b4) (simp_all add: o)
qed

theorem step_timeouts_witness:
  "(''git push'', 120) \<in> set (invocations (snd (main (scenario [])))) \<and>
   (30::int) \<le> 120 \<and> (120::int) \<le> 300 \<and>
   invocations (snd (main (scenario []))) =
     [(''git status --porcelain'', 30), (''git add .'', 60), (commit_cmd, 60),
      (''git push'', 120), (''gh run list --limit 3'', 30)]"
proof -
  let ?os = "scenario []"
  have g: "chdir ?os workdir = None"
    "fst (run_command_with_timeout ?os ''git status --porcelain'' 30) = Inr True"
    "fst (run_command_with_timeout ?os ''git add .'' 60) = Inr True"
    "fst (run_command_with_timeout ?os ''git push'' 120) = Inr True"
    by (simp_all add: scenario_runner)
  from main_outline(2) [OF g]
  have full: "invocations (snd (main ?os)) =
     [(''git status --porcelain'', 30), (''git add .'', 60), (commit_cmd, 60),
      (''git push'', 120), (''gh run list --limit 3'', 30)]" by simp
  then have reached: "(''git push'', 120) \<in> set (invocations (snd (main ?os)))" by simp
  from step_timeouts [of ?os] have
    "\<forall>(cmd, t) \<in> set (invocations (snd (main ?os))). 30 \<le> t \<and> t \<le> 300" by simp
  with reached have "(30::int) \<le> 120 \<and> (120::int) \<le> 300" by blast
  with reached full show ?thesis by simp
qed

end
